theory Spec2Isabelle
  imports Complex_Main "HOL-Library.Sublist"
begin

section \<open>Python values as the program sees them\<close>

text \<open>
  A Python \<open>str\<close> is a sequence of Unicode code points. A code point is either one of
  U+0000 to U+00FF, given as an 8-bit character, or a code point beyond U+00FF, given by
  its distance from U+0100. The literals of the program are written as Isabelle strings
  and embedded by \<open>lit\<close>; their accented letters are one character each (a-tilde is
  \<open>CHR 0xE3\<close>, i-acute \<open>CHR 0xED\<close>, c-cedilla \<open>CHR 0xE7\<close>).
\<close>

datatype codepoint = Latin1 char | Beyond nat

type_synonym pystr = "codepoint list"

definition lit :: "string \<Rightarrow> pystr" where
  "lit s = map Latin1 s"

text \<open>The operator \<open>needle in hay\<close> on two strings: \<open>needle\<close> starts at some position
  of \<open>hay\<close> (the empty needle is in every string).\<close>

fun py_in :: "pystr \<Rightarrow> pystr \<Rightarrow> bool" where
  "py_in needle [] = (needle = [])"
| "py_in needle (c # cs) = (prefix needle (c # cs) \<or> py_in needle cs)"

text \<open>The value \<open>resposta.json()\<close> returns: \<open>None\<close>, a \<open>bool\<close>, an \<open>int\<close>, a \<open>float\<close>
  (its finite value), a \<open>str\<close>, a \<open>list\<close> or a \<open>dict\<close> with string keys.\<close>

datatype json =
    JNull
  | JBool bool
  | JInt int
  | JFloat rat
  | JStr pystr
  | JArr "json list"
  | JObj "(pystr \<times> json) list"

text \<open>
  Three things the program takes from the Python runtime and not from its own text are
  parameters of the model: which code points beyond U+00FF the Unicode tables class as
  decimal digits, what \<open>str.lower()\<close> gives on a text that has a code point beyond U+00FF,
  and what the built-in \<open>str\<close> gives on a value that is not a \<open>str\<close>.
\<close>

record python =
  decimal_beyond :: "nat \<Rightarrow> bool"
  lower_beyond :: "pystr \<Rightarrow> pystr"
  str_builtin :: "json \<Rightarrow> pystr"

text \<open>The characters \<open>0\<close> to \<open>9\<close>: the class \<open>[0-9]\<close>, and all the decimal digits there are
  from U+0000 to U+00FF.\<close>

definition digit :: "char \<Rightarrow> bool" where
  "digit c = (c \<in> set ''0123456789'')"

fun ascii_digit :: "codepoint \<Rightarrow> bool" where
  "ascii_digit (Latin1 c) = digit c"
| "ascii_digit (Beyond n) = False"

text \<open>The class \<open>\d\<close> of a \<open>str\<close> pattern: every Unicode decimal digit.\<close>

fun decimal :: "python \<Rightarrow> codepoint \<Rightarrow> bool" where
  "decimal py (Latin1 c) = digit c"
| "decimal py (Beyond n) = decimal_beyond py n"

text \<open>\<open>str.lower()\<close>. On a text within U+0000 to U+00FF it works character by character:
  the letters A to Z and the upper-case letters of U+00C0 to U+00DE (the multiplication
  sign U+00D7 apart) move up by 32, every other character stays.\<close>

definition lower_char :: "char \<Rightarrow> char" where
  "lower_char c =
     (let n = (of_char c :: nat)
      in if (65 \<le> n \<and> n \<le> 90) \<or> (192 \<le> n \<and> n \<le> 222 \<and> n \<noteq> 215)
         then char_of (n + 32) else c)"

fun within_latin1 :: "codepoint \<Rightarrow> bool" where
  "within_latin1 (Latin1 c) = True"
| "within_latin1 (Beyond n) = False"

fun lower_codepoint :: "codepoint \<Rightarrow> codepoint" where
  "lower_codepoint (Latin1 c) = Latin1 (lower_char c)"
| "lower_codepoint (Beyond n) = Beyond n"

definition lower :: "python \<Rightarrow> pystr \<Rightarrow> pystr" where
  "lower py s = (if list_all within_latin1 s then map lower_codepoint s else lower_beyond py s)"

text \<open>Truth value of an object, as \<open>or\<close> and \<open>if\<close> test it.\<close>

fun truthy :: "json \<Rightarrow> bool" where
  "truthy JNull = False"
| "truthy (JBool b) = b"
| "truthy (JInt i) = (i \<noteq> 0)"
| "truthy (JFloat r) = (r \<noteq> 0)"
| "truthy (JStr s) = (s \<noteq> [])"
| "truthy (JArr xs) = (xs \<noteq> [])"
| "truthy (JObj kvs) = (kvs \<noteq> [])"

text \<open>\<open>a or b\<close>: the first operand when it is true, the second otherwise.\<close>

definition py_or :: "json \<Rightarrow> json \<Rightarrow> json" where
  "py_or a b = (if truthy a then a else b)"

definition str_or :: "pystr \<Rightarrow> pystr \<Rightarrow> pystr" where
  "str_or a b = (if a \<noteq> [] then a else b)"

fun type_name :: "json \<Rightarrow> string" where
  "type_name JNull = ''NoneType''"
| "type_name (JBool b) = ''bool''"
| "type_name (JInt i) = ''int''"
| "type_name (JFloat r) = ''float''"
| "type_name (JStr s) = ''str''"
| "type_name (JArr xs) = ''list''"
| "type_name (JObj kvs) = ''dict''"

text \<open>Exceptions derived from \<open>Exception\<close>, each with the text \<open>str(e)\<close> gives:
  the \<open>AttributeError\<close> of a method call on an object that has no such method, and any
  exception raised inside \<open>requests.get\<close> or \<open>resposta.json()\<close>.\<close>

datatype exn = AttributeError pystr | RaisedException pystr

fun str_e :: "exn \<Rightarrow> pystr" where
  "str_e (AttributeError m) = m"
| "str_e (RaisedException m) = m"

definition no_attribute :: "json \<Rightarrow> string \<Rightarrow> exn" where
  "no_attribute v attr =
     AttributeError (lit ([CHR 0x27] @ type_name v @ [CHR 0x27] @ '' object has no attribute ''
                          @ [CHR 0x27] @ attr @ [CHR 0x27]))"

text \<open>\<open>v.get(key, default)\<close>: on a \<open>dict\<close>, the value stored under the key, or the
  default when the key is absent; any other object has no method \<open>get\<close>.\<close>

definition get_or :: "(pystr \<times> json) list \<Rightarrow> pystr \<Rightarrow> json \<Rightarrow> json" where
  "get_or kvs key dflt = (case map_of kvs key of None \<Rightarrow> dflt | Some v \<Rightarrow> v)"

fun dict_get :: "json \<Rightarrow> pystr \<Rightarrow> json \<Rightarrow> exn + json" where
  "dict_get (JObj kvs) key dflt = Inr (get_or kvs key dflt)"
| "dict_get v key dflt = Inl (no_attribute v ''get'')"

text \<open>\<open>v.lower()\<close>: defined on a \<open>str\<close> only.\<close>

fun lower_method :: "python \<Rightarrow> json \<Rightarrow> exn + pystr" where
  "lower_method py (JStr s) = Inr (lower py s)"
| "lower_method py v = Inl (no_attribute v ''lower'')"

text \<open>Formatting a value inside an f-string: a \<open>str\<close> is inserted as it is; for any
  other value the text is what the built-in \<open>str\<close> gives.\<close>

definition py_str :: "python \<Rightarrow> json \<Rightarrow> pystr" where
  "py_str py v = (case v of JStr s \<Rightarrow> s | _ \<Rightarrow> str_builtin py v)"

text \<open>Sequencing of two steps of which the first may raise.\<close>

definition and_then :: "exn + 'a \<Rightarrow> ('a \<Rightarrow> exn + 'b) \<Rightarrow> exn + 'b" where
  "and_then m f = (case m of Inl e \<Rightarrow> Inl e | Inr v \<Rightarrow> f v)"


section \<open>extrair_cnpj\<close>

text \<open>The pattern \<open>\d{2}\.\d{3}\.\d{3}/\d{4}-\d{2}\<close> is a sequence of eighteen
  one-character items.\<close>

datatype item = Digit | Lit char

fun accepts :: "python \<Rightarrow> item \<Rightarrow> codepoint \<Rightarrow> bool" where
  "accepts py Digit c = decimal py c"
| "accepts py (Lit l) c = (c = Latin1 l)"

definition padrao :: "item list" where
  "padrao = replicate 2 Digit @ [Lit (CHR ''.'')] @ replicate 3 Digit @ [Lit (CHR ''.'')]
          @ replicate 3 Digit @ [Lit (CHR ''/'')] @ replicate 4 Digit @ [Lit (CHR ''-'')]
          @ replicate 2 Digit"

text \<open>The items match the beginning of the text, one character each.\<close>

fun match_here :: "python \<Rightarrow> item list \<Rightarrow> pystr \<Rightarrow> bool" where
  "match_here py [] s = True"
| "match_here py (i # is) [] = False"
| "match_here py (i # is) (c # cs) = (accepts py i c \<and> match_here py is cs)"

text \<open>\<open>re.findall\<close> for this pattern: scan from the left; where the pattern matches,
  keep the matched eighteen characters and go on right after them, otherwise move one
  character to the right.\<close>

function findall :: "python \<Rightarrow> pystr \<Rightarrow> pystr list" where
  "findall py s =
     (if s = [] then []
      else if match_here py padrao s then take 18 s # findall py (drop 18 s)
      else findall py (tl s))"
  by pat_completeness auto
termination
  by (relation "measure (\<lambda>(py, s). length s)") auto

text \<open>The shape \<open>DD.DDD.DDD/DDDD-DD\<close> as the specification words it: eighteen characters,
  decimal digits (the class \<open>\d\<close> of the pattern) in groups of two, three, three, four and
  two, separated by a dot, a dot, a slash and a hyphen.\<close>

definition formato_cnpj :: "python \<Rightarrow> pystr \<Rightarrow> bool" where
  "formato_cnpj py x =
     (length x = 18
      \<and> list_all (decimal py) (take 2 x) \<and> x ! 2 = Latin1 (CHR ''.'')
      \<and> list_all (decimal py) (take 3 (drop 3 x)) \<and> x ! 6 = Latin1 (CHR ''.'')
      \<and> list_all (decimal py) (take 3 (drop 7 x)) \<and> x ! 10 = Latin1 (CHR ''/'')
      \<and> list_all (decimal py) (take 4 (drop 11 x)) \<and> x ! 15 = Latin1 (CHR ''-'')
      \<and> list_all (decimal py) (drop 16 x))"

text \<open>The text has an occurrence of the shape at position \<open>p\<close>.\<close>

definition ocorre :: "python \<Rightarrow> pystr \<Rightarrow> nat \<Rightarrow> bool" where
  "ocorre py s p = (p + 18 \<le> length s \<and> formato_cnpj py (take 18 (drop p s)))"

text \<open>The argument is given by its text \<open>str(texto)\<close>. The program calls the function on
  the cells of a worksheet that pandas has loaded (texts, numbers, dates, and the empty
  text that \<open>fillna\<close> puts in the empty cells); for each of them \<open>str\<close> returns a
  text.\<close>

definition extrair_cnpj :: "python \<Rightarrow> pystr \<Rightarrow> pystr list" where
  "extrair_cnpj py texto = findall py texto"


section \<open>consultar_receita\<close>

text \<open>What \<open>resposta.json()\<close> does, and what \<open>requests.get(url, timeout=10)\<close> does: each
  either raises or returns.\<close>

datatype json_result = JsonRaises exn | JsonValue json

datatype get_result = GetRaises exn | Response int json_result

text \<open>The dictionary the function returns has the same four keys on every path.\<close>

record receita =
  CNPJ :: pystr
  Razao_Social :: json
  Municipio :: json
  Situacao_Cadastral :: json

text \<open>\<open>re.sub(r'[^0-9]', '', cnpj)\<close> keeps the characters \<open>0\<close> to \<open>9\<close>.\<close>

definition url_of :: "pystr \<Rightarrow> pystr" where
  "url_of cnpj = lit ''https://publica.cnpj.ws/cnpj/'' @ filter ascii_digit cnpj"

definition nao_encontrado :: pystr where
  "nao_encontrado = lit (''N'' @ [CHR 0xE3] @ ''o encontrado na Receita'')"

definition municipio_de :: "json \<Rightarrow> exn + json" where
  "municipio_de dados =
     and_then (dict_get dados (lit ''estabelecimento'') (JObj [])) (\<lambda>estabelecimento.
     and_then (dict_get estabelecimento (lit ''cidade'') (JObj [])) (\<lambda>cidade.
     and_then (dict_get cidade (lit ''nome'') (JStr [])) (\<lambda>nome.
       if truthy nome then Inr nome
       else and_then (dict_get dados (lit ''municipio'') (JStr [])) (\<lambda>municipio.
         Inr (py_or municipio (JStr []))))))"

text \<open>The body of the \<open>try\<close> block; \<open>net\<close> is the registry as seen through
  \<open>requests.get\<close>, from the URL to the outcome of the call.\<close>

definition consultar_receita_try :: "(pystr \<Rightarrow> get_result) \<Rightarrow> pystr \<Rightarrow> exn + receita" where
  "consultar_receita_try net cnpj =
     (case net (url_of cnpj) of
        GetRaises e \<Rightarrow> Inl e
      | Response status_code body \<Rightarrow>
          if status_code = 200 then
            (case body of
               JsonRaises e \<Rightarrow> Inl e
             | JsonValue dados \<Rightarrow>
                 and_then (municipio_de dados) (\<lambda>municipio.
                 and_then (dict_get dados (lit ''razao_social'') (JStr [])) (\<lambda>razao.
                 and_then (dict_get dados (lit ''descricao_situacao_cadastral'')
                             (JStr (lit ''Ativo'')))
                   (\<lambda>situacao.
                     Inr \<lparr>CNPJ = str_or cnpj [],
                          Razao_Social = py_or razao (JStr []),
                          Municipio = municipio,
                          Situacao_Cadastral = py_or situacao (JStr [])\<rparr>))))
          else
            Inr \<lparr>CNPJ = str_or cnpj [],
                 Razao_Social = JStr [],
                 Municipio = JStr [],
                 Situacao_Cadastral = JStr nao_encontrado\<rparr>)"

text \<open>The \<open>except Exception as e\<close> branch turns every exception of the body into a
  record.\<close>

definition consultar_receita :: "(pystr \<Rightarrow> get_result) \<Rightarrow> pystr \<Rightarrow> receita" where
  "consultar_receita net cnpj =
     (case consultar_receita_try net cnpj of
        Inr r \<Rightarrow> r
      | Inl e \<Rightarrow>
          \<lparr>CNPJ = str_or cnpj [],
           Razao_Social = JStr [],
           Municipio = JStr [],
           Situacao_Cadastral = JStr (lit ''Erro: '' @ str_e e)\<rparr>)"

text \<open>A registry that gives the same outcome to every request.\<close>

definition sempre :: "get_result \<Rightarrow> pystr \<Rightarrow> get_result" where
  "sempre r url = r"


section \<open>The validation loop\<close>

text \<open>The table \<open>df\<close> is given by the text \<open>str(celula)\<close> of each cell, row by row;
  \<open>df.values.flatten()\<close> is the concatenation of the rows.\<close>

type_synonym tabela = "pystr list list"

definition flatten :: "tabela \<Rightarrow> pystr list" where
  "flatten df = concat df"

text \<open>Lines 83 to 88: the matches of every cell, row by row.\<close>

definition cnpjs_encontrados :: "python \<Rightarrow> tabela \<Rightarrow> pystr list" where
  "cnpjs_encontrados py df = concat (map (\<lambda>linha. concat (map (extrair_cnpj py) linha)) df)"

text \<open>\<open>list(set(cnpjs_encontrados))\<close>: the same elements, each once, in an order the
  program does not fix.\<close>

definition cnpjs_unicos :: "python \<Rightarrow> tabela \<Rightarrow> pystr list \<Rightarrow> bool" where
  "cnpjs_unicos py df ids = (distinct ids \<and> set ids = set (cnpjs_encontrados py df))"

text \<open>\<open>any(v.lower() in str(celula).lower() for celula in ...)\<close>: the generator calls
  \<open>v.lower()\<close> once per cell it reaches and stops at the first cell that contains it.\<close>

fun any_lower_in :: "python \<Rightarrow> json \<Rightarrow> pystr list \<Rightarrow> exn + bool" where
  "any_lower_in py v [] = Inr False"
| "any_lower_in py v (celula # rest) =
     and_then (lower_method py v) (\<lambda>needle.
       if py_in needle (lower py celula) then Inr True else any_lower_in py v rest)"

record conferencia =
  cnpj_confere :: bool
  razao_confere :: bool
  municipio_confere :: bool

text \<open>Lines 103 to 116.\<close>

definition conferir :: "python \<Rightarrow> tabela \<Rightarrow> receita \<Rightarrow> exn + conferencia" where
  "conferir py df r =
     (let cnpj_c = list_ex (\<lambda>celula. py_in (CNPJ r) celula) (flatten df)
      in and_then (if truthy (Razao_Social r)
                   then any_lower_in py (Razao_Social r) (flatten df)
                   else Inr False) (\<lambda>razao_c.
         and_then (if truthy (Municipio r)
                   then any_lower_in py (Municipio r) (flatten df)
                   else Inr False) (\<lambda>municipio_c.
           Inr \<lparr>cnpj_confere = cnpj_c, razao_confere = razao_c,
                municipio_confere = municipio_c\<rparr>)))"

definition Nao :: pystr where
  "Nao = lit (''N'' @ [CHR 0xE3] @ ''o'')"

definition sim_nao :: "bool \<Rightarrow> pystr" where
  "sim_nao b = (if b then lit ''Sim'' else Nao)"

definition rotulo_razao :: pystr where
  "rotulo_razao = lit (''Raz'' @ [CHR 0xE3] @ ''o Social: '')"

definition rotulo_municipio :: pystr where
  "rotulo_municipio = lit (''Munic'' @ [CHR 0xED] @ ''pio: '')"

definition rotulo_situacao :: pystr where
  "rotulo_situacao = lit (''Situa'' @ [CHR 0xE7, CHR 0xE3] @ ''o Cadastral: '')"

text \<open>Lines 118 to 133: the four rows, each a pair of the columns
  \<open>Informacao\<close> and \<open>Confere\<close>.\<close>

definition linhas :: "python \<Rightarrow> receita \<Rightarrow> conferencia \<Rightarrow> (pystr \<times> pystr) list" where
  "linhas py r c =
     [(lit ''CNPJ: '' @ CNPJ r, sim_nao (cnpj_confere c)),
      (rotulo_razao @ py_str py (py_or (Razao_Social r) (JStr (lit ''-''))),
         sim_nao (razao_confere c)),
      (rotulo_municipio @ py_str py (py_or (Municipio r) (JStr (lit ''-''))),
         sim_nao (municipio_confere c)),
      (rotulo_situacao @ py_str py (py_or (Situacao_Cadastral r) (JStr (lit ''-''))), [])]"

text \<open>One pass of the loop body for the record of one identifier: the rows it appends,
  or the exception that leaves the loop.\<close>

definition iteracao :: "python \<Rightarrow> tabela \<Rightarrow> receita \<Rightarrow> exn + (pystr \<times> pystr) list" where
  "iteracao py df r = and_then (conferir py df r) (\<lambda>c. Inr (linhas py r c))"

text \<open>The loop of lines 100 to 135 over the identifiers, with \<open>resultados\<close> threaded
  through. The program enters it with the empty \<open>resultados\<close> and only when the list of
  identifiers is not empty; an exception of a pass is not caught and ends the loop.\<close>

fun processar ::
  "python \<Rightarrow> (pystr \<Rightarrow> get_result) \<Rightarrow> tabela \<Rightarrow> pystr list
     \<Rightarrow> (pystr \<times> pystr) list \<Rightarrow> exn + (pystr \<times> pystr) list" where
  "processar py net df [] resultados = Inr resultados"
| "processar py net df (cnpj # rest) resultados =
     and_then (iteracao py df (consultar_receita net cnpj)) (\<lambda>novas.
       processar py net df rest (resultados @ novas))"

section \<open>Properties of consultar_receita\<close>

lemma lit_eq_iff [simp]: "lit a = lit b \<longleftrightarrow> a = b"
  by (simp add: lit_def inj_map_eq_map inj_def)

lemma lit_Nil [simp]: "lit [] = []"
  by (simp add: lit_def)

lemma lit_eq_Nil [simp]: "lit a = [] \<longleftrightarrow> a = []"
  by (simp add: lit_def)

lemma Nil_eq_lit [simp]: "[] = lit a \<longleftrightarrow> a = []"
  by (simp add: lit_def)

lemma lit_append: "lit (a @ b) = lit a @ lit b"
  by (simp add: lit_def)

lemma str_or_self: "str_or s [] = s"
  by (simp add: str_or_def)

lemma try_dict:
  assumes "net (url_of cnpj) = Response 200 (JsonValue (JObj kvs))"
  shows "consultar_receita_try net cnpj =
           and_then (municipio_de (JObj kvs)) (\<lambda>municipio.
             Inr \<lparr>CNPJ = cnpj,
                  Razao_Social = py_or (get_or kvs (lit ''razao_social'') (JStr [])) (JStr []),
                  Municipio = municipio,
                  Situacao_Cadastral =
                    py_or (get_or kvs (lit ''descricao_situacao_cadastral'')
                             (JStr (lit ''Ativo''))) (JStr [])\<rparr>)"
  using assms by (simp add: consultar_receita_try_def and_then_def str_or_self)

lemma municipio_de_obj:
  assumes "get_or kvs (lit ''estabelecimento'') (JObj []) = JObj est"
    and "get_or est (lit ''cidade'') (JObj []) = JObj cid"
  shows "municipio_de (JObj kvs) =
           Inr (if truthy (get_or cid (lit ''nome'') (JStr []))
                then get_or cid (lit ''nome'') (JStr [])
                else if truthy (get_or kvs (lit ''municipio'') (JStr []))
                     then get_or kvs (lit ''municipio'') (JStr []) else JStr [])"
  using assms by (simp add: municipio_de_def and_then_def py_or_def)

text \<open>
  C6. Whenever \<open>requests.get\<close> returns a response whose status code is not 200, the
  record has the status text "Nao encontrado na Receita" (with a-tilde) and an empty
  legal name and municipality; the body of the response is not looked at.
\<close>

theorem consultar_receita_outro_status:
  assumes "net (url_of cnpj) = Response status_code body" and "status_code \<noteq> 200"
  shows "consultar_receita net cnpj =
           \<lparr>CNPJ = cnpj, Razao_Social = JStr [], Municipio = JStr [],
            Situacao_Cadastral =
              JStr (lit (''N'' @ [CHR 0xE3] @ ''o encontrado na Receita''))\<rparr>"
  using assms
  by (simp add: consultar_receita_def consultar_receita_try_def nao_encontrado_def str_or_self)

theorem consultar_receita_outro_status_witness:
  "sempre (Response 404 (JsonValue JNull)) (url_of (lit ''12.345.678/0001-95''))
     = Response 404 (JsonValue JNull)
   \<and> (404::int) \<noteq> 200
   \<and> consultar_receita (sempre (Response 404 (JsonValue JNull))) (lit ''12.345.678/0001-95'') =
           \<lparr>CNPJ = lit ''12.345.678/0001-95'', Razao_Social = JStr [], Municipio = JStr [],
            Situacao_Cadastral =
              JStr (lit (''N'' @ [CHR 0xE3] @ ''o encontrado na Receita''))\<rparr>"
  using consultar_receita_outro_status
    [of "sempre (Response 404 (JsonValue JNull))" "lit ''12.345.678/0001-95''" 404
        "JsonValue JNull"]
  by (simp add: sempre_def)

text \<open>
  C1, as stated, fails: a 200 response whose body maps \<open>descricao_situacao_cadastral\<close>
  to the empty string gives the empty status, not "Ativo" (the default of \<open>get\<close> applies
  to an absent key only, and \<open>or ""\<close> keeps the empty string).
\<close>

theorem situacao_vazia_counterexample:
  "Situacao_Cadastral (consultar_receita
      (sempre (Response 200 (JsonValue
         (JObj [(lit ''descricao_situacao_cadastral'', JStr [])]))))
      (lit ''12.345.678/0001-95'')) = JStr []
   \<and> JStr [] \<noteq> JStr (lit ''Ativo'')"
  by (simp add: consultar_receita_def consultar_receita_try_def sempre_def municipio_de_def
      and_then_def py_or_def get_or_def)

text \<open>
  C1, amended. For a 200 response whose body is an object in which \<open>estabelecimento\<close>,
  when present, is an object and its \<open>cidade\<close>, when present, is an object: the status
  is "Ativo" when the key \<open>descricao_situacao_cadastral\<close> is absent, and the empty
  string when the key is mapped to the empty string.
\<close>

theorem situacao_padrao_ativo:
  assumes "net (url_of cnpj) = Response 200 (JsonValue (JObj kvs))"
    and "get_or kvs (lit ''estabelecimento'') (JObj []) = JObj est"
    and "get_or est (lit ''cidade'') (JObj []) = JObj cid"
  shows "(map_of kvs (lit ''descricao_situacao_cadastral'') = None \<longrightarrow>
            Situacao_Cadastral (consultar_receita net cnpj) = JStr (lit ''Ativo''))
       \<and> (map_of kvs (lit ''descricao_situacao_cadastral'') = Some (JStr []) \<longrightarrow>
            Situacao_Cadastral (consultar_receita net cnpj) = JStr [])"
  using assms(1) municipio_de_obj [OF assms(2,3)]
  by (simp add: consultar_receita_def try_dict and_then_def py_or_def get_or_def)

theorem situacao_padrao_ativo_witness:
  "sempre (Response 200 (JsonValue (JObj [(lit ''razao_social'', JStr (lit ''ACME LTDA''))])))
     (url_of (lit ''12.345.678/0001-95''))
     = Response 200 (JsonValue (JObj [(lit ''razao_social'', JStr (lit ''ACME LTDA''))]))
   \<and> get_or [(lit ''razao_social'', JStr (lit ''ACME LTDA''))] (lit ''estabelecimento'')
        (JObj []) = JObj []
   \<and> get_or [] (lit ''cidade'') (JObj []) = JObj []
   \<and> map_of [(lit ''razao_social'', JStr (lit ''ACME LTDA''))]
        (lit ''descricao_situacao_cadastral'') = None
   \<and> Situacao_Cadastral (consultar_receita
        (sempre (Response 200 (JsonValue
           (JObj [(lit ''razao_social'', JStr (lit ''ACME LTDA''))]))))
        (lit ''12.345.678/0001-95'')) = JStr (lit ''Ativo'')"
  using situacao_padrao_ativo
    [of "sempre (Response 200 (JsonValue
           (JObj [(lit ''razao_social'', JStr (lit ''ACME LTDA''))])))"
        "lit ''12.345.678/0001-95''" "[(lit ''razao_social'', JStr (lit ''ACME LTDA''))]"
        "[]" "[]"]
  by (simp add: sempre_def get_or_def)

text \<open>
  C4, as stated, fails: with the body \<open>{"estabelecimento": null, "municipio": "Recife"}\<close>
  the chain of \<open>get\<close> calls raises \<open>AttributeError\<close> on \<open>None\<close>, and the record returned
  by the \<open>except\<close> branch has the empty municipality although \<open>municipio\<close> is not empty.
\<close>

theorem municipio_counterexample:
  "municipio_de (JObj [(lit ''estabelecimento'', JNull),
                       (lit ''municipio'', JStr (lit ''Recife''))])
     = Inl (AttributeError (lit ([CHR 0x27] @ ''NoneType'' @ [CHR 0x27]
              @ '' object has no attribute '' @ [CHR 0x27] @ ''get'' @ [CHR 0x27])))
   \<and> Municipio (consultar_receita
        (sempre (Response 200 (JsonValue
           (JObj [(lit ''estabelecimento'', JNull),
                  (lit ''municipio'', JStr (lit ''Recife''))]))))
        (lit ''12.345.678/0001-95'')) = JStr []
   \<and> JStr [] \<noteq> JStr (lit ''Recife'')"
  by (simp add: consultar_receita_def consultar_receita_try_def sempre_def municipio_de_def
      and_then_def py_or_def no_attribute_def get_or_def)

text \<open>
  C4, amended. For a 200 response whose body is an object in which \<open>estabelecimento\<close>,
  when present, is an object and its \<open>cidade\<close>, when present, is an object, the fallback
  does not raise, and the municipality of the record is the first true value among
  \<open>estabelecimento.cidade.nome\<close>, the top-level \<open>municipio\<close> and the empty string.
\<close>

theorem municipio_primeiro_nao_vazio:
  assumes "net (url_of cnpj) = Response 200 (JsonValue (JObj kvs))"
    and "get_or kvs (lit ''estabelecimento'') (JObj []) = JObj est"
    and "get_or est (lit ''cidade'') (JObj []) = JObj cid"
  shows "\<exists>m. municipio_de (JObj kvs) = Inr m \<and> Municipio (consultar_receita net cnpj) = m \<and>
           m = (if truthy (get_or cid (lit ''nome'') (JStr []))
                then get_or cid (lit ''nome'') (JStr [])
                else if truthy (get_or kvs (lit ''municipio'') (JStr []))
                     then get_or kvs (lit ''municipio'') (JStr []) else JStr [])"
  using assms(1) municipio_de_obj [OF assms(2,3)]
  by (simp add: consultar_receita_def try_dict and_then_def)

theorem municipio_primeiro_nao_vazio_witness:
  "sempre (Response 200 (JsonValue (JObj
       [(lit ''estabelecimento'', JObj [(lit ''cidade'', JObj [(lit ''nome'', JStr [])])]),
        (lit ''municipio'', JStr (lit ''Recife''))])))
     (url_of (lit ''12.345.678/0001-95''))
     = Response 200 (JsonValue (JObj
       [(lit ''estabelecimento'', JObj [(lit ''cidade'', JObj [(lit ''nome'', JStr [])])]),
        (lit ''municipio'', JStr (lit ''Recife''))]))
   \<and> get_or [(lit ''estabelecimento'', JObj [(lit ''cidade'', JObj [(lit ''nome'', JStr [])])]),
              (lit ''municipio'', JStr (lit ''Recife''))] (lit ''estabelecimento'') (JObj [])
       = JObj [(lit ''cidade'', JObj [(lit ''nome'', JStr [])])]
   \<and> get_or [(lit ''cidade'', JObj [(lit ''nome'', JStr [])])] (lit ''cidade'') (JObj [])
       = JObj [(lit ''nome'', JStr [])]
   \<and> Municipio (consultar_receita
        (sempre (Response 200 (JsonValue (JObj
           [(lit ''estabelecimento'', JObj [(lit ''cidade'', JObj [(lit ''nome'', JStr [])])]),
            (lit ''municipio'', JStr (lit ''Recife''))]))))
        (lit ''12.345.678/0001-95'')) = JStr (lit ''Recife'')"
  using municipio_primeiro_nao_vazio
    [of "sempre (Response 200 (JsonValue (JObj
           [(lit ''estabelecimento'', JObj [(lit ''cidade'', JObj [(lit ''nome'', JStr [])])]),
            (lit ''municipio'', JStr (lit ''Recife''))])))"
        "lit ''12.345.678/0001-95''"
        "[(lit ''estabelecimento'', JObj [(lit ''cidade'', JObj [(lit ''nome'', JStr [])])]),
          (lit ''municipio'', JStr (lit ''Recife''))]"
        "[(lit ''cidade'', JObj [(lit ''nome'', JStr [])])]"
        "[(lit ''nome'', JStr [])]"]
  by (simp add: sempre_def get_or_def)

section \<open>Properties of extrair_cnpj\<close>

declare findall.simps [simp del]

lemma ge18:
  "18 \<le> length s \<Longrightarrow> \<exists>c0 c1 c2 c3 c4 c5 c6 c7 c8 c9 c10 c11 c12 c13 c14 c15 c16 c17 rest.
     s = c0 # c1 # c2 # c3 # c4 # c5 # c6 # c7 # c8 # c9 # c10 # c11 # c12 # c13 # c14 # c15
           # c16 # c17 # rest"
  by (simp add: eval_nat_numeral Suc_le_length_iff) blast

lemma match_here_length: "match_here py p s \<Longrightarrow> length p \<le> length s"
  by (induction py p s rule: match_here.induct) simp_all

lemma length_padrao: "length padrao = 18"
  by (simp add: padrao_def)

lemma match_here_padrao: "match_here py padrao s \<longleftrightarrow> ocorre py s 0"
proof (cases "18 \<le> length s")
  case False
  then show ?thesis
    using match_here_length [of py padrao s] by (auto simp: length_padrao ocorre_def)
next
  case True
  then obtain c0 c1 c2 c3 c4 c5 c6 c7 c8 c9 c10 c11 c12 c13 c14 c15 c16 c17 rest where
    "s = c0 # c1 # c2 # c3 # c4 # c5 # c6 # c7 # c8 # c9 # c10 # c11 # c12 # c13 # c14 # c15
           # c16 # c17 # rest"
    using ge18 [OF True] by (elim exE)
  then show ?thesis
    by (simp add: padrao_def ocorre_def formato_cnpj_def eval_nat_numeral)
qed

lemma ocorre_Nil: "\<not> ocorre py [] q"
  by (simp add: ocorre_def)

lemma ocorre_drop18: "18 \<le> length s \<Longrightarrow> ocorre py (drop 18 s) p = ocorre py s (p + 18)"
  by (auto simp: ocorre_def add.commute)

lemma ocorre_tl: "s \<noteq> [] \<Longrightarrow> ocorre py (tl s) p = ocorre py s (Suc p)"
  by (cases s) (auto simp: ocorre_def)

lemma findall_pos:
  "\<exists>ps. findall py s = map (\<lambda>p. take 18 (drop p s)) ps
      \<and> (\<forall>p \<in> set ps. ocorre py s p)
      \<and> (\<forall>i. Suc i < length ps \<longrightarrow> ps ! i + 18 \<le> ps ! Suc i)
      \<and> (\<forall>q. ocorre py s q \<longrightarrow> (\<exists>p \<in> set ps. p \<le> q \<and> q < p + 18))"
proof (induction py s rule: findall.induct)
  case (1 py s)
  show ?case
  proof (cases "s = []")
    case True
    then have "findall py s = []" by (simp add: findall.simps)
    with True show ?thesis
      by (intro exI [of _ "[]"]) (simp add: ocorre_Nil)
  next
    case False
    show ?thesis
    proof (cases "match_here py padrao s")
      case True
      then have o0: "ocorre py s 0" by (simp add: match_here_padrao)
      then have len: "18 \<le> length s" by (simp add: ocorre_def)
      from "1.IH"(1) [OF False True] obtain ps where
        f: "findall py (drop 18 s) = map (\<lambda>p. take 18 (drop p (drop 18 s))) ps"
        and o: "\<forall>p \<in> set ps. ocorre py (drop 18 s) p"
        and g: "\<forall>i. Suc i < length ps \<longrightarrow> ps ! i + 18 \<le> ps ! Suc i"
        and c: "\<forall>q. ocorre py (drop 18 s) q \<longrightarrow> (\<exists>p \<in> set ps. p \<le> q \<and> q < p + 18)"
        by blast
      let ?ps = "0 # map (\<lambda>p. p + 18) ps"
      have "findall py s = take 18 s # findall py (drop 18 s)"
        using False True by (simp add: findall.simps)
      then have A: "findall py s = map (\<lambda>p. take 18 (drop p s)) ?ps"
        by (simp add: f comp_def)
      have B: "\<forall>p \<in> set ?ps. ocorre py s p"
        using o o0 by (auto simp: ocorre_drop18 [OF len])
      have C: "\<forall>i. Suc i < length ?ps \<longrightarrow> ?ps ! i + 18 \<le> ?ps ! Suc i"
      proof (intro allI impI)
        fix i assume i: "Suc i < length ?ps"
        show "?ps ! i + 18 \<le> ?ps ! Suc i"
        proof (cases i)
          case 0
          with i show ?thesis by simp
        next
          case (Suc j)
          with i g show ?thesis by (auto simp: add.commute)
        qed
      qed
      have D: "\<forall>q. ocorre py s q \<longrightarrow> (\<exists>p \<in> set ?ps. p \<le> q \<and> q < p + 18)"
      proof (intro allI impI)
        fix q assume q: "ocorre py s q"
        show "\<exists>p \<in> set ?ps. p \<le> q \<and> q < p + 18"
        proof (cases "q < 18")
          case True
          then show ?thesis by simp
        next
          case False
          then have "ocorre py (drop 18 s) (q - 18)"
            using q by (simp add: ocorre_drop18 [OF len])
          with c obtain p where p: "p \<in> set ps" "p \<le> q - 18" "q - 18 < p + 18" by blast
          from p(2,3) False have "p + 18 \<le> q \<and> q < p + 18 + 18" by arith
          with p(1) show ?thesis by auto
        qed
      qed
      from A B C D show ?thesis by blast
    next
      case nomatch: False
      from "1.IH"(2) [OF False nomatch] obtain ps where
        f: "findall py (tl s) = map (\<lambda>p. take 18 (drop p (tl s))) ps"
        and o: "\<forall>p \<in> set ps. ocorre py (tl s) p"
        and g: "\<forall>i. Suc i < length ps \<longrightarrow> ps ! i + 18 \<le> ps ! Suc i"
        and c: "\<forall>q. ocorre py (tl s) q \<longrightarrow> (\<exists>p \<in> set ps. p \<le> q \<and> q < p + 18)"
        by blast
      let ?ps = "map Suc ps"
      have "findall py s = findall py (tl s)"
        using False nomatch by (simp add: findall.simps)
      then have A: "findall py s = map (\<lambda>p. take 18 (drop p s)) ?ps"
        by (simp add: f comp_def drop_Suc)
      have B: "\<forall>p \<in> set ?ps. ocorre py s p"
        using o by (auto simp: ocorre_tl [OF False])
      have C: "\<forall>i. Suc i < length ?ps \<longrightarrow> ?ps ! i + 18 \<le> ?ps ! Suc i"
        using g by (auto simp: add.commute)
      have D: "\<forall>q. ocorre py s q \<longrightarrow> (\<exists>p \<in> set ?ps. p \<le> q \<and> q < p + 18)"
      proof (intro allI impI)
        fix q assume q: "ocorre py s q"
        with nomatch have "q \<noteq> 0" by (metis match_here_padrao)
        then obtain q' where q': "q = Suc q'" by (cases q) simp_all
        with q have "ocorre py (tl s) q'" by (simp add: ocorre_tl [OF False])
        with c obtain p where "p \<in> set ps" "p \<le> q'" "q' < p + 18" by blast
        with q' show "\<exists>p \<in> set ?ps. p \<le> q \<and> q < p + 18" by auto
      qed
      from A B C D show ?thesis by blast
    qed
  qed
qed

lemma findall_sublist: "x \<in> set (findall py s) \<Longrightarrow> \<exists>pre suf. s = pre @ x @ suf"
proof -
  assume x: "x \<in> set (findall py s)"
  from findall_pos [of py s] obtain ps where
    f: "findall py s = map (\<lambda>p. take 18 (drop p s)) ps" by blast
  with x obtain p where "x = take 18 (drop p s)" by auto
  then have "s = take p s @ x @ drop 18 (drop p s)" by (simp only: append_take_drop_id)
  then show ?thesis by blast
qed

lemma findall_length: "x \<in> set (findall py s) \<Longrightarrow> length x = 18"
proof -
  assume x: "x \<in> set (findall py s)"
  from findall_pos [of py s] obtain ps where
    f: "findall py s = map (\<lambda>p. take 18 (drop p s)) ps"
    and o: "\<forall>p \<in> set ps. ocorre py s p" by blast
  with x show ?thesis by (auto simp: ocorre_def formato_cnpj_def)
qed


text \<open>A text with a digit beyond U+00FF (the fullwidth five U+FF15, say) is an
  identifier as soon as the runtime classes that code point as a decimal digit.\<close>

lemma extrair_cnpj_digit_beyond:
  assumes "decimal_beyond py n"
  shows "extrair_cnpj py (lit ''12.345.678/0001-9'' @ [Beyond n])
           = [lit ''12.345.678/0001-9'' @ [Beyond n]]"
proof -
  let ?s = "lit ''12.345.678/0001-9'' @ [Beyond n]"
  have m: "match_here py padrao ?s"
    using assms by (simp add: padrao_def lit_def digit_def eval_nat_numeral)
  have "findall py ?s = take 18 ?s # findall py (drop 18 ?s)"
    using m by (subst findall.simps) (simp add: lit_def)
  moreover have "findall py [] = []"
    by (subst findall.simps) simp
  ultimately show ?thesis
    by (simp add: extrair_cnpj_def lit_def)
qed



section \<open>Properties of the validation loop\<close>

lemma py_in_sublist: "py_in needle hay = sublist needle hay"
  by (induction hay) (simp_all add: sublist_Cons_right)

lemma py_in_iff: "py_in needle hay \<longleftrightarrow> (\<exists>pre suf. hay = pre @ needle @ suf)"
  by (simp add: py_in_sublist sublist_def)

lemma any_lower_in_str:
  "any_lower_in py (JStr s) cells =
     Inr (\<exists>celula \<in> set cells. py_in (lower py s) (lower py celula))"
  by (induction cells) (simp_all add: and_then_def)

lemma conferir_str:
  assumes "Razao_Social r = JStr razao" and "Municipio r = JStr municipio"
  shows "conferir py df r =
           Inr \<lparr>cnpj_confere = (\<exists>celula \<in> set (flatten df). py_in (CNPJ r) celula),
                razao_confere =
                  (razao \<noteq> [] \<and>
                   (\<exists>celula \<in> set (flatten df). py_in (lower py razao) (lower py celula))),
                municipio_confere =
                  (municipio \<noteq> [] \<and>
                   (\<exists>celula \<in> set (flatten df).
                      py_in (lower py municipio) (lower py celula)))\<rparr>"
  using assms by (simp add: conferir_def and_then_def any_lower_in_str list_ex_iff)

lemma sim_nao_Sim: "sim_nao b = lit ''Sim'' \<longleftrightarrow> b"
  by (simp add: sim_nao_def Nao_def)

lemma set_flatten: "set (flatten df) = (\<Union>linha \<in> set df. set linha)"
  by (simp add: flatten_def)

lemma iteracao_str:
  assumes "Razao_Social r = JStr razao" and "Municipio r = JStr municipio"
  shows "iteracao py df r =
           Inr [(lit ''CNPJ: '' @ CNPJ r,
                 sim_nao (\<exists>celula \<in> set (flatten df). py_in (CNPJ r) celula)),
                (rotulo_razao @ (if razao = [] then lit ''-'' else razao),
                 sim_nao (razao \<noteq> [] \<and>
                   (\<exists>celula \<in> set (flatten df). py_in (lower py razao) (lower py celula)))),
                (rotulo_municipio @ (if municipio = [] then lit ''-'' else municipio),
                 sim_nao (municipio \<noteq> [] \<and>
                   (\<exists>celula \<in> set (flatten df).
                      py_in (lower py municipio) (lower py celula)))),
                (rotulo_situacao @ py_str py (py_or (Situacao_Cadastral r) (JStr (lit ''-''))),
                 [])]"
  using assms
  by (simp add: iteracao_def conferir_str [OF assms] and_then_def linhas_def py_or_def
      py_str_def)

lemma iteracao_Inr:
  assumes "iteracao py df r = Inr rows"
  shows "\<exists>c. conferir py df r = Inr c \<and> rows = linhas py r c"
  using assms by (auto simp: iteracao_def and_then_def split: sum.splits)

lemma conferir_vazio:
  assumes "conferir py df r = Inr c"
  shows "(\<not> truthy (Razao_Social r) \<longrightarrow> \<not> razao_confere c)
       \<and> (\<not> truthy (Municipio r) \<longrightarrow> \<not> municipio_confere c)"
  using assms
  by (auto simp: conferir_def and_then_def Let_def split: sum.splits if_splits)

lemma iteracao_primeira_linha:
  assumes "iteracao py df r = Inr rows"
  shows "rows ! 0 =
           (lit ''CNPJ: '' @ CNPJ r,
            sim_nao (\<exists>celula \<in> set (flatten df). py_in (CNPJ r) celula))"
  using assms
  by (auto simp: iteracao_def conferir_def and_then_def linhas_def list_ex_iff Let_def
      split: sum.splits)

text \<open>An exception of a pass leaves the loop: no row is appended for the identifier or
  for those after it.\<close>

lemma processar_raises:
  "iteracao py df (consultar_receita net cnpj) = Inl e \<Longrightarrow>
     processar py net df (cnpj # rest) resultados = Inl e"
  by (simp add: and_then_def)

lemma try_raises:
  "consultar_receita_try net cnpj = Inl e \<longleftrightarrow>
     net (url_of cnpj) = GetRaises e
   \<or> net (url_of cnpj) = Response 200 (JsonRaises e)
   \<or> (\<exists>dados. net (url_of cnpj) = Response 200 (JsonValue dados) \<and> municipio_de dados = Inl e)"
proof (cases "net (url_of cnpj)")
  case (GetRaises x)
  then show ?thesis by (simp add: consultar_receita_try_def)
next
  case (Response code body)
  show ?thesis
  proof (cases body)
    case (JsonRaises x)
    with Response show ?thesis by (simp add: consultar_receita_try_def)
  next
    case (JsonValue dados)
    show ?thesis
    proof (cases "municipio_de dados")
      case (Inl x)
      with Response JsonValue show ?thesis
        by (simp add: consultar_receita_try_def and_then_def)
    next
      case (Inr m)
      then obtain kvs where "dados = JObj kvs"
        by (cases dados) (simp_all add: municipio_de_def and_then_def)
      with Response JsonValue Inr show ?thesis
        by (simp add: consultar_receita_try_def and_then_def)
    qed
  qed
qed

lemma consultar_receita_CNPJ: "CNPJ (consultar_receita net cnpj) = cnpj"
proof (cases "consultar_receita_try net cnpj")
  case (Inl e)
  then show ?thesis by (simp add: consultar_receita_def str_or_self)
next
  case (Inr r)
  then have "CNPJ r = cnpj"
    by (auto simp: consultar_receita_try_def and_then_def str_or_self
        split: get_result.splits json_result.splits sum.splits if_splits)
  with Inr show ?thesis by (simp add: consultar_receita_def)
qed

lemma take_drop_concat:
  "\<forall>xs \<in> set xss. length xs = n \<Longrightarrow> i < length xss \<Longrightarrow>
     take n (drop (n * i) (concat xss)) = xss ! i"
proof (induction xss arbitrary: i)
  case Nil
  then show ?case by simp
next
  case (Cons xs xss)
  show ?case
  proof (cases i)
    case 0
    with Cons.prems show ?thesis by simp
  next
    case (Suc j)
    with Cons.prems have "take n (drop (n * j) (concat xss)) = xss ! j"
      by (intro Cons.IH) simp_all
    with Suc Cons.prems show ?thesis by simp
  qed
qed

lemma length_concat_const:
  "\<forall>xs \<in> set xss. length xs = n \<Longrightarrow> length (concat xss) = n * length xss"
  by (induction xss) simp_all

lemma processar_str:
  assumes "\<forall>cnpj \<in> set ids. \<exists>razao municipio.
             Razao_Social (consultar_receita net cnpj) = JStr razao
           \<and> Municipio (consultar_receita net cnpj) = JStr municipio"
  shows "processar py net df ids resultados =
           Inr (resultados @
                concat (map (\<lambda>cnpj. projr (iteracao py df (consultar_receita net cnpj))) ids))"
  using assms
proof (induction ids arbitrary: resultados)
  case Nil
  then show ?case by simp
next
  case (Cons cnpj rest)
  then obtain razao municipio where
    "Razao_Social (consultar_receita net cnpj) = JStr razao"
    "Municipio (consultar_receita net cnpj) = JStr municipio"
    by auto
  from iteracao_str [OF this, of py df]
  obtain rows where "iteracao py df (consultar_receita net cnpj) = Inr rows"
    by blast
  moreover have "processar py net df rest rs =
      Inr (rs @ concat (map (\<lambda>cnpj. projr (iteracao py df (consultar_receita net cnpj))) rest))"
    for rs using Cons.prems by (intro Cons.IH) simp
  ultimately show ?case
    by (simp add: and_then_def)
qed

text \<open>
  C3, as stated, fails: with the 200 body \<open>{"razao_social": "ACME LTDA", "municipio": 5}\<close>
  and a table with the cells \<open>12.345.678/0001-95\<close> and \<open>Acme Ltda\<close>, the legal name of the
  record is not empty and occurs, case-insensitively, in a cell, but the pass raises
  \<open>AttributeError\<close> at line 114 (an \<open>int\<close> has no \<open>lower\<close>) and reports no verdict at all.
\<close>

theorem razao_confere_counterexample:
  "consultar_receita
     (sempre (Response 200 (JsonValue (JObj
        [(lit ''razao_social'', JStr (lit ''ACME LTDA'')), (lit ''municipio'', JInt 5)]))))
     (lit ''12.345.678/0001-95'')
     = \<lparr>CNPJ = lit ''12.345.678/0001-95'', Razao_Social = JStr (lit ''ACME LTDA''),
        Municipio = JInt 5, Situacao_Cadastral = JStr (lit ''Ativo'')\<rparr>
   \<and> (\<forall>py. cnpjs_encontrados py [[lit ''12.345.678/0001-95'', lit ''Acme Ltda'']]
          = [lit ''12.345.678/0001-95''])
   \<and> (\<forall>py. py_in (lower py (lit ''ACME LTDA'')) (lower py (lit ''Acme Ltda'')))
   \<and> (\<forall>py. iteracao py [[lit ''12.345.678/0001-95'', lit ''Acme Ltda'']]
          \<lparr>CNPJ = lit ''12.345.678/0001-95'', Razao_Social = JStr (lit ''ACME LTDA''),
           Municipio = JInt 5, Situacao_Cadastral = JStr (lit ''Ativo'')\<rparr>
        = Inl (AttributeError (lit ([CHR 0x27] @ ''int'' @ [CHR 0x27]
              @ '' object has no attribute '' @ [CHR 0x27] @ ''lower'' @ [CHR 0x27]))))"
proof (intro conjI allI)
  show "consultar_receita
     (sempre (Response 200 (JsonValue (JObj
        [(lit ''razao_social'', JStr (lit ''ACME LTDA'')), (lit ''municipio'', JInt 5)]))))
     (lit ''12.345.678/0001-95'')
     = \<lparr>CNPJ = lit ''12.345.678/0001-95'', Razao_Social = JStr (lit ''ACME LTDA''),
        Municipio = JInt 5, Situacao_Cadastral = JStr (lit ''Ativo'')\<rparr>"
    by (simp add: consultar_receita_def consultar_receita_try_def sempre_def municipio_de_def
        and_then_def py_or_def get_or_def str_or_self)
next
  fix py
  have "extrair_cnpj py (lit ''12.345.678/0001-95'') = [lit ''12.345.678/0001-95'']"
    and "extrair_cnpj py (lit ''Acme Ltda'') = []"
    by code_simp+
  then show "cnpjs_encontrados py [[lit ''12.345.678/0001-95'', lit ''Acme Ltda'']]
          = [lit ''12.345.678/0001-95'']"
    by (simp add: cnpjs_encontrados_def)
next
  fix py
  show occ: "py_in (lower py (lit ''ACME LTDA'')) (lower py (lit ''Acme Ltda''))"
    by code_simp
  have "\<not> py_in (lower py (lit ''ACME LTDA'')) (lower py (lit ''12.345.678/0001-95''))"
    by code_simp
  with occ show "iteracao py [[lit ''12.345.678/0001-95'', lit ''Acme Ltda'']]
          \<lparr>CNPJ = lit ''12.345.678/0001-95'', Razao_Social = JStr (lit ''ACME LTDA''),
           Municipio = JInt 5, Situacao_Cadastral = JStr (lit ''Ativo'')\<rparr>
        = Inl (AttributeError (lit ([CHR 0x27] @ ''int'' @ [CHR 0x27]
              @ '' object has no attribute '' @ [CHR 0x27] @ ''lower'' @ [CHR 0x27])))"
    by (simp add: iteracao_def conferir_def flatten_def and_then_def no_attribute_def)
qed

text \<open>
  C3, amended. For a record whose legal name and municipality are both texts, the pass
  of the loop appends its rows, and when the legal name is not empty the verdict of the
  legal-name row is "Sim" exactly when the lower-cased legal name is a substring of the
  lower-cased text of some cell of some row of the table; the same holds for a non-empty
  municipality and the municipality row.
\<close>

theorem razao_municipio_confere:
  assumes "Razao_Social r = JStr razao" and "Municipio r = JStr municipio"
  shows "\<exists>rows. iteracao py df r = Inr rows \<and> length rows = 4 \<and>
           (razao \<noteq> [] \<longrightarrow>
              (snd (rows ! 1) = lit ''Sim'') =
                (\<exists>linha \<in> set df. \<exists>celula \<in> set linha.
                   \<exists>pre suf. lower py celula = pre @ lower py razao @ suf)) \<and>
           (municipio \<noteq> [] \<longrightarrow>
              (snd (rows ! 2) = lit ''Sim'') =
                (\<exists>linha \<in> set df. \<exists>celula \<in> set linha.
                   \<exists>pre suf. lower py celula = pre @ lower py municipio @ suf))"
  by (simp add: iteracao_def conferir_str [OF assms] and_then_def linhas_def sim_nao_Sim
      set_flatten py_in_iff)

text \<open>
  C2, as stated, fails: with the 200 body \<open>{"municipio": 5}\<close> the legal name of the record
  is the empty string, but on the table of the one cell \<open>12.345.678/0001-95\<close> no "Nao"
  is reported for it: the pass raises \<open>AttributeError\<close> at line 114 and reports no row.
\<close>

theorem campo_vazio_counterexample:
  "consultar_receita
     (sempre (Response 200 (JsonValue (JObj [(lit ''municipio'', JInt 5)]))))
     (lit ''12.345.678/0001-95'')
     = \<lparr>CNPJ = lit ''12.345.678/0001-95'', Razao_Social = JStr [],
        Municipio = JInt 5, Situacao_Cadastral = JStr (lit ''Ativo'')\<rparr>
   \<and> (\<forall>py. cnpjs_encontrados py [[lit ''12.345.678/0001-95'']] = [lit ''12.345.678/0001-95''])
   \<and> (\<forall>py. iteracao py [[lit ''12.345.678/0001-95'']]
          \<lparr>CNPJ = lit ''12.345.678/0001-95'', Razao_Social = JStr [],
           Municipio = JInt 5, Situacao_Cadastral = JStr (lit ''Ativo'')\<rparr>
        = Inl (AttributeError (lit ([CHR 0x27] @ ''int'' @ [CHR 0x27]
              @ '' object has no attribute '' @ [CHR 0x27] @ ''lower'' @ [CHR 0x27]))))"
proof (intro conjI allI)
  show "consultar_receita
     (sempre (Response 200 (JsonValue (JObj [(lit ''municipio'', JInt 5)]))))
     (lit ''12.345.678/0001-95'')
     = \<lparr>CNPJ = lit ''12.345.678/0001-95'', Razao_Social = JStr [],
        Municipio = JInt 5, Situacao_Cadastral = JStr (lit ''Ativo'')\<rparr>"
    by (simp add: consultar_receita_def consultar_receita_try_def sempre_def municipio_de_def
        and_then_def py_or_def get_or_def str_or_self)
next
  fix py
  have "extrair_cnpj py (lit ''12.345.678/0001-95'') = [lit ''12.345.678/0001-95'']"
    by code_simp
  then show "cnpjs_encontrados py [[lit ''12.345.678/0001-95'']] = [lit ''12.345.678/0001-95'']"
    by (simp add: cnpjs_encontrados_def)
next
  fix py
  show "iteracao py [[lit ''12.345.678/0001-95'']]
          \<lparr>CNPJ = lit ''12.345.678/0001-95'', Razao_Social = JStr [],
           Municipio = JInt 5, Situacao_Cadastral = JStr (lit ''Ativo'')\<rparr>
        = Inl (AttributeError (lit ([CHR 0x27] @ ''int'' @ [CHR 0x27]
              @ '' object has no attribute '' @ [CHR 0x27] @ ''lower'' @ [CHR 0x27])))"
    by (simp add: iteracao_def conferir_def flatten_def and_then_def no_attribute_def)
qed

text \<open>
  C2, amended. For the legal-name and municipality fields: if the value of the record
  for the field is the empty string, every pass that reports rows reports "Nao" (with
  a-tilde) in the row of that field, whatever the table, and the pass does report its rows
  whenever the other of the two fields is a text. The identifier of a record in the loop
  is never the empty string: it is the extracted identifier of eighteen characters,
  returned unchanged.
\<close>

theorem campo_vazio_nao_confere:
  "(Razao_Social r = JStr [] \<longrightarrow>
      (\<forall>rows. iteracao py df r = Inr rows \<longrightarrow>
         length rows = 4 \<and> snd (rows ! 1) = lit (''N'' @ [CHR 0xE3] @ ''o'')))
   \<and> (Municipio r = JStr [] \<longrightarrow>
      (\<forall>rows. iteracao py df r = Inr rows \<longrightarrow>
         length rows = 4 \<and> snd (rows ! 2) = lit (''N'' @ [CHR 0xE3] @ ''o'')))
   \<and> (Razao_Social r = JStr [] \<and> (\<exists>municipio. Municipio r = JStr municipio) \<longrightarrow>
      (\<exists>rows. iteracao py df r = Inr rows))
   \<and> (Municipio r = JStr [] \<and> (\<exists>razao. Razao_Social r = JStr razao) \<longrightarrow>
      (\<exists>rows. iteracao py df r = Inr rows))
   \<and> (cnpjs_unicos py df ids \<and> cnpj \<in> set ids \<longrightarrow>
      length (CNPJ (consultar_receita net cnpj)) = 18)"
proof (intro conjI impI allI)
  fix rows
  assume e: "Razao_Social r = JStr []" and i: "iteracao py df r = Inr rows"
  from iteracao_Inr [OF i] obtain c where c: "conferir py df r = Inr c" "rows = linhas py r c"
    by blast
  from conferir_vazio [OF c(1)] e have "\<not> razao_confere c" by simp
  with c(2) show "length rows = 4" and "snd (rows ! 1) = lit (''N'' @ [CHR 0xE3] @ ''o'')"
    by (simp_all add: linhas_def sim_nao_def Nao_def)
next
  fix rows
  assume e: "Municipio r = JStr []" and i: "iteracao py df r = Inr rows"
  from iteracao_Inr [OF i] obtain c where c: "conferir py df r = Inr c" "rows = linhas py r c"
    by blast
  from conferir_vazio [OF c(1)] e have "\<not> municipio_confere c" by simp
  with c(2) show "length rows = 4" and "snd (rows ! 2) = lit (''N'' @ [CHR 0xE3] @ ''o'')"
    by (simp_all add: linhas_def sim_nao_def Nao_def)
next
  assume "Razao_Social r = JStr [] \<and> (\<exists>municipio. Municipio r = JStr municipio)"
  then obtain municipio where "Razao_Social r = JStr []" "Municipio r = JStr municipio"
    by blast
  from iteracao_str [OF this] show "\<exists>rows. iteracao py df r = Inr rows" by blast
next
  assume "Municipio r = JStr [] \<and> (\<exists>razao. Razao_Social r = JStr razao)"
  then obtain razao where "Razao_Social r = JStr razao" "Municipio r = JStr []"
    by blast
  from iteracao_str [OF this] show "\<exists>rows. iteracao py df r = Inr rows" by blast
next
  assume "cnpjs_unicos py df ids \<and> cnpj \<in> set ids"
  then have "cnpj \<in> set (cnpjs_encontrados py df)"
    by (auto simp: cnpjs_unicos_def)
  then have "length cnpj = 18"
    by (auto simp: cnpjs_encontrados_def extrair_cnpj_def findall_length)
  then show "length (CNPJ (consultar_receita net cnpj)) = 18"
    by (simp add: consultar_receita_CNPJ)
qed

text \<open>
  C5. When the body of the \<open>try\<close> block raises an exception \<open>e\<close> (in
  \<open>requests.get\<close>, in \<open>resposta.json()\<close> or on the parsed body), consultar_receita
  returns the record with the identifier, an empty legal name and municipality and the
  status "Erro: " followed by \<open>str(e)\<close>; the loop appends the four rows of that record and
  goes on with the remaining identifiers.
\<close>

theorem consultar_receita_excecao:
  assumes "consultar_receita_try net cnpj = Inl e"
  shows "consultar_receita net cnpj =
           \<lparr>CNPJ = cnpj, Razao_Social = JStr [], Municipio = JStr [],
            Situacao_Cadastral = JStr (lit ''Erro: '' @ str_e e)\<rparr>
       \<and> processar py net df (cnpj # rest) resultados =
           processar py net df rest
             (resultados @
              [(lit ''CNPJ: '' @ cnpj,
                sim_nao (\<exists>celula \<in> set (flatten df). py_in cnpj celula)),
               (rotulo_razao @ lit ''-'', Nao),
               (rotulo_municipio @ lit ''-'', Nao),
               (rotulo_situacao @ lit ''Erro: '' @ str_e e, [])])"
proof -
  have rec: "consultar_receita net cnpj =
           \<lparr>CNPJ = cnpj, Razao_Social = JStr [], Municipio = JStr [],
            Situacao_Cadastral = JStr (lit ''Erro: '' @ str_e e)\<rparr>"
    using assms by (simp add: consultar_receita_def str_or_self)
  have "iteracao py df (consultar_receita net cnpj) =
          Inr [(lit ''CNPJ: '' @ cnpj,
                sim_nao (\<exists>celula \<in> set (flatten df). py_in cnpj celula)),
               (rotulo_razao @ lit ''-'', Nao),
               (rotulo_municipio @ lit ''-'', Nao),
               (rotulo_situacao @ lit ''Erro: '' @ str_e e, [])]"
    by (simp add: rec iteracao_str [of _ "[]" "[]"] sim_nao_def py_or_def py_str_def lit_def)
  then show ?thesis
    using rec by (simp add: and_then_def)
qed

text \<open>
  C10. For every identifier of the deduplicated list, whatever the registry answers:
  consultar_receita returns the identifier unchanged in the field CNPJ, the identifier is
  a substring of the text of some cell of the table, and so the row "CNPJ: ..." that the
  pass of the loop appends carries the verdict "Sim".
\<close>

theorem cnpj_sempre_confere:
  assumes "cnpjs_unicos py df ids" and "cnpj \<in> set ids"
  shows "CNPJ (consultar_receita net cnpj) = cnpj
       \<and> (\<exists>linha \<in> set df. \<exists>celula \<in> set linha. \<exists>pre suf. celula = pre @ cnpj @ suf)
       \<and> (\<forall>rows. iteracao py df (consultar_receita net cnpj) = Inr rows
             \<longrightarrow> rows ! 0 = (lit ''CNPJ: '' @ cnpj, lit ''Sim''))"
proof -
  from assms have "cnpj \<in> set (cnpjs_encontrados py df)"
    by (simp add: cnpjs_unicos_def)
  then obtain linha celula where lc: "linha \<in> set df" "celula \<in> set linha"
    and "cnpj \<in> set (findall py celula)"
    by (auto simp: cnpjs_encontrados_def extrair_cnpj_def)
  then have sub: "\<exists>pre suf. celula = pre @ cnpj @ suf"
    by (simp add: findall_sublist)
  with lc have cell: "\<exists>linha \<in> set df. \<exists>celula \<in> set linha. \<exists>pre suf. celula = pre @ cnpj @ suf"
    by blast
  then have "\<exists>celula \<in> set (flatten df). py_in cnpj celula"
    by (simp add: set_flatten py_in_iff)
  then have "\<forall>rows. iteracao py df (consultar_receita net cnpj) = Inr rows
             \<longrightarrow> rows ! 0 = (lit ''CNPJ: '' @ cnpj, lit ''Sim'')"
    using iteracao_primeira_linha [of py df "consultar_receita net cnpj"]
    by (simp add: consultar_receita_CNPJ sim_nao_def)
  with cell show ?thesis by (simp add: consultar_receita_CNPJ)
qed

text \<open>
  C8, as stated, fails: with the 200 body \<open>{"razao_social": 5}\<close> and the table of the one
  cell \<open>12.345.678/0001-95\<close>, the identifier is extracted and looked up, and then the pass
  raises \<open>AttributeError\<close> at line 110 (an \<open>int\<close> has no \<open>lower\<close>): the loop ends with
  no row appended for the identifier.
\<close>

theorem quatro_linhas_counterexample:
  "consultar_receita
     (sempre (Response 200 (JsonValue (JObj [(lit ''razao_social'', JInt 5)]))))
     (lit ''12.345.678/0001-95'')
     = \<lparr>CNPJ = lit ''12.345.678/0001-95'', Razao_Social = JInt 5,
        Municipio = JStr [], Situacao_Cadastral = JStr (lit ''Ativo'')\<rparr>
   \<and> (\<forall>py. cnpjs_encontrados py [[lit ''12.345.678/0001-95'']] = [lit ''12.345.678/0001-95''])
   \<and> (\<forall>py. processar py
          (sempre (Response 200 (JsonValue (JObj [(lit ''razao_social'', JInt 5)]))))
          [[lit ''12.345.678/0001-95'']] [lit ''12.345.678/0001-95''] []
        = Inl (AttributeError (lit ([CHR 0x27] @ ''int'' @ [CHR 0x27]
              @ '' object has no attribute '' @ [CHR 0x27] @ ''lower'' @ [CHR 0x27]))))"
proof (intro conjI allI)
  show rec: "consultar_receita
     (sempre (Response 200 (JsonValue (JObj [(lit ''razao_social'', JInt 5)]))))
     (lit ''12.345.678/0001-95'')
     = \<lparr>CNPJ = lit ''12.345.678/0001-95'', Razao_Social = JInt 5,
        Municipio = JStr [], Situacao_Cadastral = JStr (lit ''Ativo'')\<rparr>"
    by (simp add: consultar_receita_def consultar_receita_try_def sempre_def municipio_de_def
        and_then_def py_or_def get_or_def str_or_self)
  fix py
  show "processar py
          (sempre (Response 200 (JsonValue (JObj [(lit ''razao_social'', JInt 5)]))))
          [[lit ''12.345.678/0001-95'']] [lit ''12.345.678/0001-95''] []
        = Inl (AttributeError (lit ([CHR 0x27] @ ''int'' @ [CHR 0x27]
              @ '' object has no attribute '' @ [CHR 0x27] @ ''lower'' @ [CHR 0x27])))"
    by (simp add: rec iteracao_def conferir_def flatten_def and_then_def no_attribute_def)
next
  fix py
  have "extrair_cnpj py (lit ''12.345.678/0001-95'') = [lit ''12.345.678/0001-95'']"
    by code_simp
  then show "cnpjs_encontrados py [[lit ''12.345.678/0001-95'']] = [lit ''12.345.678/0001-95'']"
    by (simp add: cnpjs_encontrados_def)
qed

text \<open>
  C8, amended. When the legal name and the municipality of every record are texts, the
  loop completes and appends to the result table exactly four rows per identifier, in the
  order of the identifiers; the four rows of an identifier are its identifier row,
  legal-name row, municipality row and status row, in this order, the first three with the
  verdict "Sim" or "Nao" (with a-tilde) and the status row with the empty verdict.
\<close>

theorem quatro_linhas_por_cnpj:
  assumes "\<forall>cnpj \<in> set ids. \<exists>razao municipio.
             Razao_Social (consultar_receita net cnpj) = JStr razao
           \<and> Municipio (consultar_receita net cnpj) = JStr municipio"
  shows "\<exists>novas. processar py net df ids resultados = Inr (resultados @ novas)
       \<and> length novas = 4 * length ids
       \<and> (\<forall>i < length ids. \<exists>v1 v2 v3.
            take 4 (drop (4 * i) novas) =
              [(lit ''CNPJ: '' @ ids ! i, v1),
               (rotulo_razao @ py_str py
                  (py_or (Razao_Social (consultar_receita net (ids ! i))) (JStr (lit ''-''))),
                v2),
               (rotulo_municipio @ py_str py
                  (py_or (Municipio (consultar_receita net (ids ! i))) (JStr (lit ''-''))),
                v3),
               (rotulo_situacao @ py_str py
                  (py_or (Situacao_Cadastral (consultar_receita net (ids ! i)))
                     (JStr (lit ''-''))),
                [])]
            \<and> {v1, v2, v3} \<subseteq> {lit ''Sim'', Nao})"
proof -
  let ?f = "\<lambda>cnpj. projr (iteracao py df (consultar_receita net cnpj))"
  let ?novas = "concat (map ?f ids)"
  have row: "\<exists>v1 v2 v3.
      ?f cnpj =
        [(lit ''CNPJ: '' @ cnpj, v1),
         (rotulo_razao @ py_str py
            (py_or (Razao_Social (consultar_receita net cnpj)) (JStr (lit ''-''))), v2),
         (rotulo_municipio @ py_str py
            (py_or (Municipio (consultar_receita net cnpj)) (JStr (lit ''-''))), v3),
         (rotulo_situacao @ py_str py
            (py_or (Situacao_Cadastral (consultar_receita net cnpj)) (JStr (lit ''-''))), [])]
      \<and> {v1, v2, v3} \<subseteq> {lit ''Sim'', Nao}" if "cnpj \<in> set ids" for cnpj
  proof -
    from that assms obtain razao municipio where
      "Razao_Social (consultar_receita net cnpj) = JStr razao"
      "Municipio (consultar_receita net cnpj) = JStr municipio"
      by blast
    then show ?thesis
      by (simp add: iteracao_def conferir_str and_then_def linhas_def consultar_receita_CNPJ
          sim_nao_def)
  qed
  then have len4: "\<forall>xs \<in> set (map ?f ids). length xs = 4"
    by fastforce
  have A: "processar py net df ids resultados = Inr (resultados @ ?novas)"
    by (rule processar_str [OF assms])
  have B: "length ?novas = 4 * length ids"
    using length_concat_const [OF len4] by simp
  have C: "take 4 (drop (4 * i) ?novas) = ?f (ids ! i)" if "i < length ids" for i
    using take_drop_concat [OF len4, of i] that by simp
  show ?thesis
  proof (intro exI [of _ ?novas] conjI allI impI)
    show "processar py net df ids resultados = Inr (resultados @ ?novas)" by (rule A)
    show "length ?novas = 4 * length ids" by (rule B)
  next
    fix i assume i: "i < length ids"
    then have "ids ! i \<in> set ids" by simp
    from row [OF this] show "\<exists>v1 v2 v3.
            take 4 (drop (4 * i) ?novas) =
              [(lit ''CNPJ: '' @ ids ! i, v1),
               (rotulo_razao @ py_str py
                  (py_or (Razao_Social (consultar_receita net (ids ! i))) (JStr (lit ''-''))),
                v2),
               (rotulo_municipio @ py_str py
                  (py_or (Municipio (consultar_receita net (ids ! i))) (JStr (lit ''-''))),
                v3),
               (rotulo_situacao @ py_str py
                  (py_or (Situacao_Cadastral (consultar_receita net (ids ! i)))
                     (JStr (lit ''-''))),
                [])]
            \<and> {v1, v2, v3} \<subseteq> {lit ''Sim'', Nao}"
      by (simp only: C [OF i])
  qed
qed

section \<open>The scenario of the specification\<close>

lemma cenario_extrair:
  "extrair_cnpj py (lit ''12.345.678/0001-95'') = [lit ''12.345.678/0001-95'']"
  "extrair_cnpj py (lit ''Acme Ltda'') = []"
  by code_simp+

lemma cenario_in:
  "py_in (lit ''12.345.678/0001-95'') (lit ''12.345.678/0001-95'')"
  "py_in (lower py (lit ''ACME LTDA'')) (lower py (lit ''Acme Ltda''))"
  "\<not> py_in (lower py (lit ''ACME LTDA'')) (lower py (lit ''12.345.678/0001-95''))"
  "\<not> py_in (lower py (lit ''Recife'')) (lower py (lit ''Acme Ltda''))"
  "\<not> py_in (lower py (lit ''Recife'')) (lower py (lit ''12.345.678/0001-95''))"
  by code_simp+

lemma cenario_receita:
  "consultar_receita
     (sempre (Response 200 (JsonValue (JObj
        [(lit ''razao_social'', JStr (lit ''ACME LTDA'')),
         (lit ''descricao_situacao_cadastral'', JStr (lit ''Ativa''))]))))
     (lit ''12.345.678/0001-95'')
   = \<lparr>CNPJ = lit ''12.345.678/0001-95'', Razao_Social = JStr (lit ''ACME LTDA''),
      Municipio = JStr [], Situacao_Cadastral = JStr (lit ''Ativa'')\<rparr>"
  by (simp add: consultar_receita_def consultar_receita_try_def sempre_def municipio_de_def
      and_then_def py_or_def get_or_def str_or_self)

lemma cenario_receita_vazia:
  "consultar_receita (sempre (Response 200 (JsonValue (JObj [])))) (lit ''12.345.678/0001-95'')
   = \<lparr>CNPJ = lit ''12.345.678/0001-95'', Razao_Social = JStr [],
      Municipio = JStr [], Situacao_Cadastral = JStr (lit ''Ativo'')\<rparr>"
  by (simp add: consultar_receita_def consultar_receita_try_def sempre_def municipio_de_def
      and_then_def py_or_def get_or_def str_or_self)

lemma cenario_linhas:
  "iteracao py [[lit ''12.345.678/0001-95'', lit ''Acme Ltda'']]
        \<lparr>CNPJ = lit ''12.345.678/0001-95'', Razao_Social = JStr (lit ''ACME LTDA''),
         Municipio = JStr [], Situacao_Cadastral = JStr (lit ''Ativa'')\<rparr>
       = Inr [(lit ''CNPJ: 12.345.678/0001-95'', lit ''Sim''),
              (lit (''Raz'' @ [CHR 0xE3] @ ''o Social: ACME LTDA''), lit ''Sim''),
              (lit (''Munic'' @ [CHR 0xED] @ ''pio: -''), lit (''N'' @ [CHR 0xE3] @ ''o'')),
              (lit (''Situa'' @ [CHR 0xE7, CHR 0xE3] @ ''o Cadastral: Ativa''), [])]"
  by (simp add: iteracao_str [of _ "lit ''ACME LTDA''" "[]"] flatten_def cenario_in sim_nao_def
      Nao_def rotulo_razao_def rotulo_municipio_def rotulo_situacao_def py_or_def py_str_def
      lit_append [symmetric])

text \<open>
  C7. The scenario: the table has the cells \<open>12.345.678/0001-95\<close> and \<open>Acme Ltda\<close>; the
  record has the legal name \<open>ACME LTDA\<close>, the empty municipality and the status
  \<open>Ativa\<close>. The only identifier extracted is \<open>12.345.678/0001-95\<close>, the pass of the loop for
  the record gives the four expected rows, and so does the whole loop when the registry
  answers 200 with that legal name and status.
\<close>

theorem cenario_acme:
  "cnpjs_encontrados py [[lit ''12.345.678/0001-95'', lit ''Acme Ltda'']]
     = [lit ''12.345.678/0001-95'']
   \<and> iteracao py [[lit ''12.345.678/0001-95'', lit ''Acme Ltda'']]
        \<lparr>CNPJ = lit ''12.345.678/0001-95'', Razao_Social = JStr (lit ''ACME LTDA''),
         Municipio = JStr [], Situacao_Cadastral = JStr (lit ''Ativa'')\<rparr>
       = Inr [(lit ''CNPJ: 12.345.678/0001-95'', lit ''Sim''),
              (lit (''Raz'' @ [CHR 0xE3] @ ''o Social: ACME LTDA''), lit ''Sim''),
              (lit (''Munic'' @ [CHR 0xED] @ ''pio: -''), lit (''N'' @ [CHR 0xE3] @ ''o'')),
              (lit (''Situa'' @ [CHR 0xE7, CHR 0xE3] @ ''o Cadastral: Ativa''), [])]
   \<and> processar py
        (sempre (Response 200 (JsonValue (JObj
           [(lit ''razao_social'', JStr (lit ''ACME LTDA'')),
            (lit ''descricao_situacao_cadastral'', JStr (lit ''Ativa''))]))))
        [[lit ''12.345.678/0001-95'', lit ''Acme Ltda'']]
        (cnpjs_encontrados py [[lit ''12.345.678/0001-95'', lit ''Acme Ltda'']]) []
       = Inr [(lit ''CNPJ: 12.345.678/0001-95'', lit ''Sim''),
              (lit (''Raz'' @ [CHR 0xE3] @ ''o Social: ACME LTDA''), lit ''Sim''),
              (lit (''Munic'' @ [CHR 0xED] @ ''pio: -''), lit (''N'' @ [CHR 0xE3] @ ''o'')),
              (lit (''Situa'' @ [CHR 0xE7, CHR 0xE3] @ ''o Cadastral: Ativa''), [])]"
  by (simp add: cnpjs_encontrados_def cenario_extrair cenario_receita cenario_linhas
      and_then_def)

theorem razao_municipio_confere_witness:
  "Razao_Social \<lparr>CNPJ = lit ''12.345.678/0001-95'', Razao_Social = JStr (lit ''ACME LTDA''),
         Municipio = JStr (lit ''Recife''), Situacao_Cadastral = JStr (lit ''Ativa'')\<rparr>
     = JStr (lit ''ACME LTDA'')
   \<and> Municipio \<lparr>CNPJ = lit ''12.345.678/0001-95'', Razao_Social = JStr (lit ''ACME LTDA''),
         Municipio = JStr (lit ''Recife''), Situacao_Cadastral = JStr (lit ''Ativa'')\<rparr>
     = JStr (lit ''Recife'')
   \<and> (\<forall>py. \<exists>rows.
         iteracao py [[lit ''12.345.678/0001-95'', lit ''Acme Ltda'']]
           \<lparr>CNPJ = lit ''12.345.678/0001-95'', Razao_Social = JStr (lit ''ACME LTDA''),
            Municipio = JStr (lit ''Recife''), Situacao_Cadastral = JStr (lit ''Ativa'')\<rparr>
           = Inr rows
         \<and> snd (rows ! 1) = lit ''Sim'' \<and> snd (rows ! 2) \<noteq> lit ''Sim'')"
proof (intro conjI allI)
  fix py
  from razao_municipio_confere
    [of "\<lparr>CNPJ = lit ''12.345.678/0001-95'', Razao_Social = JStr (lit ''ACME LTDA''),
            Municipio = JStr (lit ''Recife''), Situacao_Cadastral = JStr (lit ''Ativa'')\<rparr>"
        "lit ''ACME LTDA''" "lit ''Recife''" py "[[lit ''12.345.678/0001-95'', lit ''Acme Ltda'']]"]
  show "\<exists>rows.
         iteracao py [[lit ''12.345.678/0001-95'', lit ''Acme Ltda'']]
           \<lparr>CNPJ = lit ''12.345.678/0001-95'', Razao_Social = JStr (lit ''ACME LTDA''),
            Municipio = JStr (lit ''Recife''), Situacao_Cadastral = JStr (lit ''Ativa'')\<rparr>
           = Inr rows
         \<and> snd (rows ! 1) = lit ''Sim'' \<and> snd (rows ! 2) \<noteq> lit ''Sim''"
    by (simp add: py_in_iff [symmetric] cenario_in) blast
qed simp_all

theorem campo_vazio_nao_confere_witness:
  "Razao_Social (consultar_receita (sempre (Response 200 (JsonValue (JObj []))))
     (lit ''12.345.678/0001-95'')) = JStr []
   \<and> Municipio (consultar_receita (sempre (Response 200 (JsonValue (JObj []))))
     (lit ''12.345.678/0001-95'')) = JStr []
   \<and> (\<forall>py. cnpjs_unicos py [[lit ''12.345.678/0001-95'']] [lit ''12.345.678/0001-95''])
   \<and> lit ''12.345.678/0001-95'' \<in> set [lit ''12.345.678/0001-95'']
   \<and> (\<forall>py. \<exists>rows.
         iteracao py [[lit ''12.345.678/0001-95'']]
           (consultar_receita (sempre (Response 200 (JsonValue (JObj []))))
              (lit ''12.345.678/0001-95'')) = Inr rows
         \<and> snd (rows ! 1) = lit (''N'' @ [CHR 0xE3] @ ''o'')
         \<and> snd (rows ! 2) = lit (''N'' @ [CHR 0xE3] @ ''o''))
   \<and> length (CNPJ (consultar_receita (sempre (Response 200 (JsonValue (JObj []))))
        (lit ''12.345.678/0001-95''))) = 18"
proof -
  let ?net = "sempre (Response 200 (JsonValue (JObj [])))"
  let ?c = "lit ''12.345.678/0001-95''"
  have r: "Razao_Social (consultar_receita ?net ?c) = JStr []"
    and m: "Municipio (consultar_receita ?net ?c) = JStr []"
    by (simp_all add: cenario_receita_vazia)
  have u: "cnpjs_unicos py [[?c]] [?c]" for py
    by (simp add: cnpjs_unicos_def cnpjs_encontrados_def cenario_extrair)
  have rows: "(\<exists>rows. iteracao py [[?c]] (consultar_receita ?net ?c) = Inr rows
         \<and> snd (rows ! 1) = lit (''N'' @ [CHR 0xE3] @ ''o'')
         \<and> snd (rows ! 2) = lit (''N'' @ [CHR 0xE3] @ ''o''))
       \<and> length (CNPJ (consultar_receita ?net ?c)) = 18" for py
    using campo_vazio_nao_confere [of "consultar_receita ?net ?c" py "[[?c]]" "[?c]" ?c ?net]
      r m u [of py]
    by auto
  from r m u rows show ?thesis by simp
qed

theorem consultar_receita_excecao_witness:
  "consultar_receita_try (sempre (GetRaises (RaisedException (lit ''Read timed out.''))))
     (lit ''12.345.678/0001-95'') = Inl (RaisedException (lit ''Read timed out.''))
   \<and> consultar_receita (sempre (GetRaises (RaisedException (lit ''Read timed out.''))))
     (lit ''12.345.678/0001-95'')
     = \<lparr>CNPJ = lit ''12.345.678/0001-95'', Razao_Social = JStr [], Municipio = JStr [],
        Situacao_Cadastral = JStr (lit ''Erro: Read timed out.'')\<rparr>"
  using consultar_receita_excecao
    [of "sempre (GetRaises (RaisedException (lit ''Read timed out.'')))"
        "lit ''12.345.678/0001-95''" "RaisedException (lit ''Read timed out.'')"]
  by (simp add: consultar_receita_try_def sempre_def lit_append [symmetric])

theorem quatro_linhas_por_cnpj_witness:
  "Razao_Social (consultar_receita
       (sempre (Response 200 (JsonValue (JObj
          [(lit ''razao_social'', JStr (lit ''ACME LTDA'')),
           (lit ''descricao_situacao_cadastral'', JStr (lit ''Ativa''))]))))
       (lit ''12.345.678/0001-95'')) = JStr (lit ''ACME LTDA'')
   \<and> Municipio (consultar_receita
       (sempre (Response 200 (JsonValue (JObj
          [(lit ''razao_social'', JStr (lit ''ACME LTDA'')),
           (lit ''descricao_situacao_cadastral'', JStr (lit ''Ativa''))]))))
       (lit ''12.345.678/0001-95'')) = JStr []
   \<and> (\<forall>py. \<exists>novas.
         processar py
           (sempre (Response 200 (JsonValue (JObj
              [(lit ''razao_social'', JStr (lit ''ACME LTDA'')),
               (lit ''descricao_situacao_cadastral'', JStr (lit ''Ativa''))]))))
           [[lit ''12.345.678/0001-95'', lit ''Acme Ltda'']] [lit ''12.345.678/0001-95''] []
           = Inr novas
         \<and> length novas = 4)"
proof (intro conjI allI)
  have h: "\<forall>cnpj \<in> set [lit ''12.345.678/0001-95'']. \<exists>razao municipio.
       Razao_Social (consultar_receita
         (sempre (Response 200 (JsonValue (JObj
            [(lit ''razao_social'', JStr (lit ''ACME LTDA'')),
             (lit ''descricao_situacao_cadastral'', JStr (lit ''Ativa''))])))) cnpj) = JStr razao
     \<and> Municipio (consultar_receita
         (sempre (Response 200 (JsonValue (JObj
            [(lit ''razao_social'', JStr (lit ''ACME LTDA'')),
             (lit ''descricao_situacao_cadastral'', JStr (lit ''Ativa''))])))) cnpj)
         = JStr municipio"
    by (simp add: cenario_receita)
  fix py
  from quatro_linhas_por_cnpj
    [OF h, of py "[[lit ''12.345.678/0001-95'', lit ''Acme Ltda'']]" "[]"]
  show "\<exists>novas.
         processar py
           (sempre (Response 200 (JsonValue (JObj
              [(lit ''razao_social'', JStr (lit ''ACME LTDA'')),
               (lit ''descricao_situacao_cadastral'', JStr (lit ''Ativa''))]))))
           [[lit ''12.345.678/0001-95'', lit ''Acme Ltda'']] [lit ''12.345.678/0001-95''] []
           = Inr novas
         \<and> length novas = 4"
    by auto
qed (simp_all add: cenario_receita)

theorem cnpj_sempre_confere_witness:
  "(\<forall>py. cnpjs_unicos py [[lit ''12.345.678/0001-95'', lit ''Acme Ltda'']]
           [lit ''12.345.678/0001-95''])
   \<and> lit ''12.345.678/0001-95'' \<in> set [lit ''12.345.678/0001-95'']
   \<and> (\<forall>py. \<exists>rows.
         iteracao py [[lit ''12.345.678/0001-95'', lit ''Acme Ltda'']]
           (consultar_receita
              (sempre (Response 200 (JsonValue (JObj
                 [(lit ''razao_social'', JStr (lit ''ACME LTDA'')),
                  (lit ''descricao_situacao_cadastral'', JStr (lit ''Ativa''))]))))
              (lit ''12.345.678/0001-95'')) = Inr rows
         \<and> rows ! 0 = (lit ''CNPJ: 12.345.678/0001-95'', lit ''Sim''))"
proof (intro conjI allI)
  show u: "cnpjs_unicos py [[lit ''12.345.678/0001-95'', lit ''Acme Ltda'']]
             [lit ''12.345.678/0001-95'']" for py
    by (simp add: cnpjs_unicos_def cnpjs_encontrados_def cenario_extrair)
  show m: "lit ''12.345.678/0001-95'' \<in> set [lit ''12.345.678/0001-95'']" by simp
  fix py
  from cnpj_sempre_confere [OF u m, of py]
  show "\<exists>rows.
         iteracao py [[lit ''12.345.678/0001-95'', lit ''Acme Ltda'']]
           (consultar_receita
              (sempre (Response 200 (JsonValue (JObj
                 [(lit ''razao_social'', JStr (lit ''ACME LTDA'')),
                  (lit ''descricao_situacao_cadastral'', JStr (lit ''Ativa''))]))))
              (lit ''12.345.678/0001-95'')) = Inr rows
         \<and> rows ! 0 = (lit ''CNPJ: 12.345.678/0001-95'', lit ''Sim'')"
    by (simp add: cenario_receita cenario_linhas)
qed

end
